theory Spec2Isabelle
  imports Complex_Main "HOL-Library.Multiset"
begin

section \<open>Configuration constants of Covid_Simulation.py\<close>

definition test_lag :: int where
  "test_lag = 1"

definition first_contagious_day :: int where
  "first_contagious_day = 3"

definition last_contagious_day :: int where
  "last_contagious_day = 13"

definition first_positive_test_day :: int where
  "first_positive_test_day = 1"

definition last_positive_test_day :: int where
  "last_positive_test_day = 16"

text \<open>
  \<^verbatim>\<open>students_per_family = 1.25\<close> is a Python float, that is a double. A finite double
  is a rational number and is kept as that number (1.25 is 5/4 exactly). The operations
  that read \<^verbatim>\<open>students_per_family\<close> take it as a parameter, so that configurations
  other than the shipped one can be stated.
\<close>

definition students_per_family :: rat where
  "students_per_family = 5 / 4"

definition S1_class_size :: int where
  "S1_class_size = 14"

definition S1_teachers :: int where
  "S1_teachers = 2"

definition S1_classes_in_school :: int where
  "S1_classes_in_school = 10"

definition N_days :: int where
  "N_days = 90"

section \<open>class person\<close>

text \<open>
  \<^verbatim>\<open>days_with_virus\<close> is \<open>-1\<close> for a person who never had the virus,
  \<^verbatim>\<open>day_infected\<close> starts at the sentinel 1000000, \<^verbatim>\<open>family_unit\<close> starts
  as \<^verbatim>\<open>None\<close>.
\<close>

record person =
  name :: string
  age :: int
  days_with_virus :: int
  day_infected :: int
  family_unit :: "int option"

definition person_init :: "string \<Rightarrow> int \<Rightarrow> person" where
  "person_init nm a =
     \<lparr>name = nm, age = a, days_with_virus = - 1, day_infected = 1000000,
      family_unit = None\<rparr>"

definition assign_to_family :: "person \<Rightarrow> int \<Rightarrow> person" where
  "assign_to_family p fam = p\<lparr>family_unit := Some fam\<rparr>"

definition is_sick :: "person \<Rightarrow> bool" where
  "is_sick p = (if days_with_virus p > - 1 then True else False)"

definition tests_positive :: "person \<Rightarrow> bool" where
  "tests_positive p =
     (if days_with_virus p > first_positive_test_day \<and>
         days_with_virus p \<le> last_positive_test_day
      then True else False)"

definition is_contagious :: "person \<Rightarrow> bool" where
  "is_contagious p =
     (if days_with_virus p \<ge> first_contagious_day \<and>
         days_with_virus p < last_contagious_day
      then True else False)"

definition sicken :: "person \<Rightarrow> int \<Rightarrow> person" where
  "sicken p day =
     (if days_with_virus p = - 1
      then p\<lparr>days_with_virus := 0, day_infected := day\<rparr>
      else p)"

definition update_days_sick :: "person \<Rightarrow> person" where
  "update_days_sick p =
     (if days_with_virus p \<noteq> - 1
      then p\<lparr>days_with_virus := days_with_virus p + 1\<rparr>
      else p)"

section \<open>The warning classifier\<close>

text \<open>
  \<^verbatim>\<open>determine_agg_warnings\<close> takes the three aggregate counters and returns them with
  one of them incremented. The counters are the triple (no warning, some warning,
  good warning), in the order of the returned tuple.
\<close>

type_synonym counters = "int \<times> int \<times> int"

fun determine_agg_warnings :: "int option \<Rightarrow> int \<Rightarrow> counters \<Rightarrow> counters" where
  "determine_agg_warnings None day_contagious (no_w, some_w, good_w) =
     (no_w + 1, some_w, good_w)"
| "determine_agg_warnings (Some t) day_contagious (no_w, some_w, good_w) =
     (if t + test_lag \<ge> day_contagious + first_contagious_day
      then (no_w + 1, some_w, good_w)
      else if t + test_lag \<ge> day_contagious
      then (no_w, some_w + 1, good_w)
      else (no_w, some_w, good_w + 1))"

text \<open>
  The branch sequence that the simulation loop runs inline for school 1 (the
  \<^verbatim>\<open>S1_infections_*\<close> counters), after \<^verbatim>\<open>day_contagious\<close> has been computed.
\<close>

fun S1_inline_warnings :: "int option \<Rightarrow> int \<Rightarrow> counters \<Rightarrow> counters" where
  "S1_inline_warnings None day_contagious (S1_no, S1_some, S1_good) =
     (S1_no + 1, S1_some, S1_good)"
| "S1_inline_warnings (Some t) day_contagious (S1_no, S1_some, S1_good) =
     (if t + test_lag \<ge> day_contagious + first_contagious_day
      then (S1_no + 1, S1_some, S1_good)
      else if t + test_lag \<ge> day_contagious
      then (S1_no, S1_some + 1, S1_good)
      else (S1_no, S1_some, S1_good + 1))"

text \<open>
  The three tiers as the specification words them: no warning when there is no test day
  or the result comes at or after the second-degree threshold; otherwise some warning
  when the result comes at or after the day of contagion; otherwise good warning.
\<close>

datatype tier = No_warning | Some_warning | Good_warning

definition spec_tier :: "int option \<Rightarrow> int \<Rightarrow> tier" where
  "spec_tier T day_contagious =
     (if T = None \<or> the T + test_lag \<ge> day_contagious + first_contagious_day
      then No_warning
      else if the T + test_lag \<ge> day_contagious then Some_warning
      else Good_warning)"

fun bump :: "tier \<Rightarrow> counters \<Rightarrow> counters" where
  "bump No_warning (n, s, g) = (n + 1, s, g)"
| "bump Some_warning (n, s, g) = (n, s + 1, g)"
| "bump Good_warning (n, s, g) = (n, s, g + 1)"

section \<open>Python values used by the model\<close>

datatype py_error = IndexError | ValueError

text \<open>\<^verbatim>\<open>str(n)\<close> for an integer: its decimal digits, with a minus sign when negative.\<close>

definition digit_char :: "nat \<Rightarrow> char" where
  "digit_char d = ''0123456789'' ! d"

function str_nat :: "nat \<Rightarrow> string" where
  "str_nat n =
     (if n < 10 then [digit_char n] else str_nat (n div 10) @ [digit_char (n mod 10)])"
  by pat_completeness auto
termination
  by (relation "measure id") auto

declare str_nat.simps [simp del]

definition str_int :: "int \<Rightarrow> string" where
  "str_int k = (if k < 0 then ''-'' @ str_nat (nat (- k)) else str_nat (nat k))"

text \<open>
  \<^verbatim>\<open>a in b\<close> for two Python strings is the substring test: \<open>a\<close> occurs in \<open>b\<close> as a
  contiguous run of characters.
\<close>

fun starts_with :: "string \<Rightarrow> string \<Rightarrow> bool" where
  "starts_with [] ys = True"
| "starts_with (x # xs) [] = False"
| "starts_with (x # xs) (y # ys) = (x = y \<and> starts_with xs ys)"

fun str_in :: "string \<Rightarrow> string \<Rightarrow> bool" where
  "str_in xs [] = (xs = [])"
| "str_in xs (y # ys) = (starts_with xs (y # ys) \<or> str_in xs ys)"

text \<open>
  \<^verbatim>\<open>n / y\<close> for an int \<open>n\<close> and a float \<open>y\<close>: Python converts \<open>n\<close> to a double and
  divides in double arithmetic, which returns the exact quotient rounded to a double.
  The rounding onto the doubles is the parameter \<open>fl\<close>; it is applied once by the
  conversion and once by the division. Quotients outside the range of the finite doubles
  and a zero divisor are not covered: the division below is reached only with a divisor
  that is at least 1. \<^verbatim>\<open>math.floor\<close> of a finite double is its exact floor.
\<close>

definition py_truediv :: "(rat \<Rightarrow> rat) \<Rightarrow> int \<Rightarrow> rat \<Rightarrow> rat" where
  "py_truediv fl n y = fl (fl (of_int n) / y)"

text \<open>
  The slice \<^verbatim>\<open>xs[0:k]\<close> and the statement \<^verbatim>\<open>del xs[0:k]\<close>; a negative \<open>k\<close> counts
  from the end of the list.
\<close>

definition slice_to :: "'a list \<Rightarrow> int \<Rightarrow> 'a list" where
  "slice_to xs k = (if k \<ge> 0 then take (nat k) xs else take (length xs - nat (- k)) xs)"

definition del_to :: "'a list \<Rightarrow> int \<Rightarrow> 'a list" where
  "del_to xs k = (if k \<ge> 0 then drop (nat k) xs else drop (length xs - nat (- k)) xs)"

section \<open>class classroom\<close>

record classroom =
  number :: int
  students :: "person list"
  teachers :: "person list"
  earliest_positive_test_day :: "int option"

definition classroom_init :: "int \<Rightarrow> int \<Rightarrow> int \<Rightarrow> int \<Rightarrow> classroom" where
  "classroom_init num class_sz ag num_teachers =
     \<lparr>number = num,
      students =
        map (\<lambda>i. person_init (''student_'' @ str_int num @ ''_'' @ str_nat i) ag)
          [0..<nat class_sz],
      teachers =
        map (\<lambda>i. person_init (''teacher_'' @ str_int num @ ''_'' @ str_nat i) 30)
          [0..<nat num_teachers],
      earliest_positive_test_day = None\<rparr>"

text \<open>
  \<^verbatim>\<open>classroom.assign_to_families\<close> pops one entry of the list it is given for each
  student; \<^verbatim>\<open>pop(0)\<close> on an empty list raises IndexError.
\<close>

fun assign_to_families_loop :: "person list \<Rightarrow> int list \<Rightarrow> py_error + person list" where
  "assign_to_families_loop [] fam_assignments = Inr []"
| "assign_to_families_loop (stdt # rest) [] = Inl IndexError"
| "assign_to_families_loop (stdt # rest) (fam # fam_assignments) =
     (case assign_to_families_loop rest fam_assignments of
        Inl e \<Rightarrow> Inl e
      | Inr rest' \<Rightarrow> Inr (assign_to_family stdt fam # rest'))"

definition assign_to_families :: "classroom \<Rightarrow> int list \<Rightarrow> py_error + classroom" where
  "assign_to_families c fam_assignments =
     (case assign_to_families_loop (students c) fam_assignments of
        Inl e \<Rightarrow> Inl e
      | Inr ss \<Rightarrow> Inr (c\<lparr>students := ss\<rparr>))"

definition any_contagious_cases_in_classroom :: "classroom \<Rightarrow> bool" where
  "any_contagious_cases_in_classroom c =
     (list_ex is_contagious (students c) \<or> list_ex is_contagious (teachers c))"

definition sicken_all :: "classroom \<Rightarrow> int \<Rightarrow> classroom" where
  "sicken_all c day =
     c\<lparr>students := map (\<lambda>stdt. sicken stdt day) (students c),
       teachers := map (\<lambda>teach. sicken teach day) (teachers c)\<rparr>"

definition classroom_update_days_sick :: "classroom \<Rightarrow> classroom" where
  "classroom_update_days_sick c =
     c\<lparr>students := map update_days_sick (students c),
       teachers := map update_days_sick (teachers c)\<rparr>"

text \<open>
  \<^verbatim>\<open>classroom.test\<close>: one pass over \<^verbatim>\<open>self.students\<close>; the field is written when the
  student tests positive and the field is still \<^verbatim>\<open>None\<close>.
\<close>

fun test_loop :: "int \<Rightarrow> person list \<Rightarrow> int option \<Rightarrow> int option" where
  "test_loop day [] e = e"
| "test_loop day (stdt # rest) e =
     test_loop day rest
       (if tests_positive stdt then (if e = None then Some day else e) else e)"

definition classroom_test :: "classroom \<Rightarrow> int \<Rightarrow> classroom" where
  "classroom_test c day =
     c\<lparr>earliest_positive_test_day :=
         test_loop day (students c) (earliest_positive_test_day c)\<rparr>"

definition offline :: "classroom \<Rightarrow> int \<Rightarrow> bool" where
  "offline c day =
     (case earliest_positive_test_day c of
        None \<Rightarrow> False
      | Some t \<Rightarrow> (if day > t + test_lag then True else False))"

section \<open>class school\<close>

record school =
  school_name :: string
  classrooms :: "classroom list"
  class_size :: int

text \<open>
  The constructor reads \<^verbatim>\<open>ages_list[i]\<close> for each classroom index, which raises
  IndexError when the list is shorter than the number of classrooms.
\<close>

definition school_init :: "string \<Rightarrow> int \<Rightarrow> int \<Rightarrow> int list \<Rightarrow> int \<Rightarrow> py_error + school" where
  "school_init nm num_classrooms class_sz ages_list teachers_per_class =
     (if nat num_classrooms > length ages_list then Inl IndexError
      else Inr
        \<lparr>school_name = nm,
         classrooms =
           map (\<lambda>i. classroom_init (int i + 1) class_sz (ages_list ! i) teachers_per_class)
             [0..<nat num_classrooms],
         class_size = class_sz\<rparr>)"

definition school_test :: "school \<Rightarrow> int \<Rightarrow> school" where
  "school_test s day = s\<lparr>classrooms := map (\<lambda>clrm. classroom_test clrm day) (classrooms s)\<rparr>"

definition total_students :: "school \<Rightarrow> int" where
  "total_students s = (\<Sum>clrm \<leftarrow> classrooms s. int (length (students clrm)))"

definition total_people :: "school \<Rightarrow> int" where
  "total_people s =
     (\<Sum>clrm \<leftarrow> classrooms s. int (length (students clrm)) + int (length (teachers clrm)))"

text \<open>
  \<^verbatim>\<open>assign_to_random_families\<close>. \<open>fl\<close> is the rounding of double arithmetic, used by
  the division \<^verbatim>\<open>self.total_students()/students_per_family\<close>; the comparison
  \<^verbatim>\<open>students_per_family < 1\<close> is exact. The two sources of randomness are parameters:
  \<open>randint i\<close> is the value returned by the \<open>i\<close>-th call of
  \<^verbatim>\<open>random.randint(0, num_families-1)\<close>, and \<open>shuffle\<close> is the rearrangement made by
  \<^verbatim>\<open>random.shuffle\<close>. \<^verbatim>\<open>random.randint(0, -1)\<close> raises ValueError (empty range), which
  happens at the first appended entry when \<open>num_families\<close> is 0. The result carries the
  lines printed and the school.
\<close>

fun distribute :: "int \<Rightarrow> classroom list \<Rightarrow> int list \<Rightarrow> py_error + classroom list" where
  "distribute class_sz [] fam_assignments = Inr []"
| "distribute class_sz (clrm # rest) fam_assignments =
     (case assign_to_families clrm (slice_to fam_assignments class_sz) of
        Inl e \<Rightarrow> Inl e
      | Inr clrm' \<Rightarrow>
          (case distribute class_sz rest (del_to fam_assignments class_sz) of
             Inl e \<Rightarrow> Inl e
           | Inr rest' \<Rightarrow> Inr (clrm' # rest')))"

definition assign_to_random_families ::
    "(rat \<Rightarrow> rat) \<Rightarrow> rat \<Rightarrow> (nat \<Rightarrow> int) \<Rightarrow> (int list \<Rightarrow> int list) \<Rightarrow> school
      \<Rightarrow> py_error + (string list \<times> school)" where
  "assign_to_random_families fl spf randint shuffle s =
     (if spf < 1 then Inr ([''Can't have fewer than 1 student per family.''], s)
      else
        let num_families = \<lfloor>py_truediv fl (total_students s) spf\<rfloor>;
            extra = nat (total_students s - num_families)
        in if extra > 0 \<and> num_families - 1 < 0 then Inl ValueError
           else
             (case distribute (class_size s) (classrooms s)
                     (shuffle (map int [0..<nat num_families] @ map randint [0..<extra])) of
                Inl e \<Rightarrow> Inl e
              | Inr cs \<Rightarrow> Inr ([], s\<lparr>classrooms := cs\<rparr>)))"

text \<open>
  \<^verbatim>\<open>spread_virus\<close>: the classroom channel on weekdays for classrooms that are not
  offline, then the family channel. The set of contagious families is read after the
  classroom channel has run.
\<close>

definition spread_in_classrooms :: "school \<Rightarrow> int \<Rightarrow> school" where
  "spread_in_classrooms s day =
     (if \<not> (day mod 7 \<in> {5, 6})
      then s\<lparr>classrooms :=
             map (\<lambda>clrm. if \<not> offline clrm day
                          then (if any_contagious_cases_in_classroom clrm
                                then sicken_all clrm day else clrm)
                          else clrm)
               (classrooms s)\<rparr>
      else s)"

definition contagious_families :: "school \<Rightarrow> int option list" where
  "contagious_families s =
     concat (map (\<lambda>clrm. map family_unit (filter is_contagious (students clrm)))
       (classrooms s))"

definition spread_in_families :: "school \<Rightarrow> int \<Rightarrow> school" where
  "spread_in_families s day =
     s\<lparr>classrooms :=
         map (\<lambda>clrm. clrm\<lparr>students :=
                 map (\<lambda>stdt. if family_unit stdt \<in> set (contagious_families s)
                              then sicken stdt day else stdt)
                   (students clrm)\<rparr>)
           (classrooms s)\<rparr>"

definition spread_virus :: "school \<Rightarrow> int \<Rightarrow> school" where
  "spread_virus s day = spread_in_families (spread_in_classrooms s day) day"

definition school_update_days_sick :: "school \<Rightarrow> school" where
  "school_update_days_sick s = s\<lparr>classrooms := map classroom_update_days_sick (classrooms s)\<rparr>"

text \<open>
  \<^verbatim>\<open>sicken_xth_person\<close> walks the classrooms with the counter \<open>p\<close>, students before
  teachers. The walk over one list of people returns the value returned from inside the
  loop, if any, the counter, and the people.
  The result of the method is \<open>Some True\<close>, \<open>Some False\<close>, or \<open>None\<close> when the
  loops end and the error line is printed.
\<close>

fun sicken_in_list ::
    "int \<Rightarrow> string \<Rightarrow> int \<Rightarrow> int \<Rightarrow> person list \<Rightarrow> bool option \<times> int \<times> person list" where
  "sicken_in_list x exclude_list day p [] = (None, p, [])"
| "sicken_in_list x exclude_list day p (q # qs) =
     (if p + 1 = x
      then (if str_in (name q) exclude_list then (Some False, p + 1, q # qs)
            else if is_sick q then (Some False, p + 1, q # qs)
            else (Some True, p + 1, sicken q day # qs))
      else (case sicken_in_list x exclude_list day (p + 1) qs of
              (r, p', qs') \<Rightarrow> (r, p', q # qs')))"

fun sicken_in_classrooms ::
    "int \<Rightarrow> string \<Rightarrow> int \<Rightarrow> int \<Rightarrow> classroom list \<Rightarrow> bool option \<times> classroom list" where
  "sicken_in_classrooms x exclude_list day p [] = (None, [])"
| "sicken_in_classrooms x exclude_list day p (clrm # rest) =
     (case sicken_in_list x exclude_list day p (students clrm) of
        (Some r, p1, ss) \<Rightarrow> (Some r, clrm\<lparr>students := ss\<rparr> # rest)
      | (None, p1, ss) \<Rightarrow>
          (case sicken_in_list x exclude_list day p1 (teachers clrm) of
             (Some r, p2, ts) \<Rightarrow> (Some r, clrm\<lparr>teachers := ts\<rparr> # rest)
           | (None, p2, ts) \<Rightarrow>
               (case sicken_in_classrooms x exclude_list day p2 rest of
                  (r, rest') \<Rightarrow> (r, clrm # rest'))))"

definition sicken_xth_person :: "school \<Rightarrow> int \<Rightarrow> string \<Rightarrow> int \<Rightarrow> bool option \<times> school" where
  "sicken_xth_person s x exclude_list day =
     (case sicken_in_classrooms x exclude_list day (- 1) (classrooms s) of
        (r, cs) \<Rightarrow> (r, s\<lparr>classrooms := cs\<rparr>))"

section \<open>The simulation loop\<close>

text \<open>School 1 as each trial builds it, and the exclude list the seeding block passes.\<close>

definition S1_school :: "py_error + school" where
  "S1_school =
     school_init ''S1_school'' S1_classes_in_school S1_class_size
       (replicate (nat S1_class_size) 5) S1_teachers"

definition seeding_exclude_list :: string where
  "seeding_exclude_list = ''student_1_1''"

text \<open>
  \<^verbatim>\<open>s.classrooms[0].students[0]\<close> together with \<^verbatim>\<open>s.classrooms[0]\<close>; either index
  raises IndexError on an empty list.
\<close>

definition of_interest :: "school \<Rightarrow> py_error + (person \<times> classroom)" where
  "of_interest s =
     (case classrooms s of
        [] \<Rightarrow> Inl IndexError
      | c # _ \<Rightarrow> (case students c of [] \<Rightarrow> Inl IndexError | k # _ \<Rightarrow> Inr (k, c)))"

text \<open>The tallies that the loop over the trials accumulates.\<close>

record tallies =
  S1_infections :: int
  S2_infections :: int
  S1_infections_warnings :: counters
  Agg_infections :: int
  Agg_infections_warnings :: counters

text \<open>
  The block "Final results for simulation", on the two days of infection and on
  \<^verbatim>\<open>S1_school.classrooms[0].earliest_positive_test_day\<close>.
\<close>

definition tally_trial :: "int \<Rightarrow> int \<Rightarrow> int option \<Rightarrow> tallies \<Rightarrow> tallies" where
  "tally_trial d1 d2 T1 t =
     (let t1 = (if d1 \<le> N_days
                then t\<lparr>S1_infections := S1_infections t + 1,
                       S1_infections_warnings :=
                         S1_inline_warnings T1 (d1 + first_contagious_day)
                           (S1_infections_warnings t)\<rparr>
                else t);
          t2 = (if d2 \<le> N_days then t1\<lparr>S2_infections := S2_infections t1 + 1\<rparr> else t1);
          t3 = (if d1 \<le> N_days \<or> d2 \<le> N_days
                then t2\<lparr>Agg_infections := Agg_infections t2 + 1\<rparr> else t2)
      in if d1 \<le> N_days \<and> d2 \<le> N_days
         then t3\<lparr>Agg_infections_warnings :=
                   determine_agg_warnings T1
                     (min (d1 + first_contagious_day) (d2 + first_contagious_day))
                     (Agg_infections_warnings t3)\<rparr>
         else if d1 \<le> N_days
         then t3\<lparr>Agg_infections_warnings :=
                   determine_agg_warnings T1 (d1 + first_contagious_day)
                     (Agg_infections_warnings t3)\<rparr>
         else if d2 \<le> N_days
         then t3\<lparr>Agg_infections_warnings :=
                   determine_agg_warnings T1 (d2 + first_contagious_day)
                     (Agg_infections_warnings t3)\<rparr>
         else t3)"

definition final_results :: "school \<Rightarrow> school \<Rightarrow> tallies \<Rightarrow> py_error + tallies" where
  "final_results S1 S2 t =
     (case of_interest S1 of
        Inl e \<Rightarrow> Inl e
      | Inr (k1, c1) \<Rightarrow>
          (case of_interest S2 of
             Inl e \<Rightarrow> Inl e
           | Inr (k2, c2) \<Rightarrow>
               Inr (tally_trial (day_infected k1) (day_infected k2)
                      (earliest_positive_test_day c1) t)))"

section \<open>Concrete states used to instantiate the theorems\<close>

text \<open>A student infected on day \<open>d\<close>, alone in classroom 1 of a one-classroom school.\<close>

definition example_student :: "int \<Rightarrow> person" where
  "example_student d = sicken (person_init ''student_1_0'' 5) d"

definition example_classroom :: "int \<Rightarrow> int option \<Rightarrow> classroom" where
  "example_classroom d T =
     \<lparr>number = 1, students = [example_student d], teachers = [],
      earliest_positive_test_day = T\<rparr>"

definition example_school :: "int \<Rightarrow> int option \<Rightarrow> school" where
  "example_school d T =
     \<lparr>school_name = ''example'', classrooms = [example_classroom d T], class_size = 1\<rparr>"

text \<open>
  A classroom never tested so far, whose only student is healthy and whose only teacher
  was infected on day 2 and has had the virus for 5 days.
\<close>

definition staff_positive_classroom :: classroom where
  "staff_positive_classroom =
     \<lparr>number = 1,
      students = [person_init ''student_1_0'' 5],
      teachers = [(person_init ''teacher_1_0'' 30)\<lparr>days_with_virus := 5, day_infected := 2\<rparr>],
      earliest_positive_test_day = None\<rparr>"

definition zero_tallies :: tallies where
  "zero_tallies =
     \<lparr>S1_infections = 0, S2_infections = 0, S1_infections_warnings = (0, 0, 0),
      Agg_infections = 0, Agg_infections_warnings = (0, 0, 0)\<rparr>"

text \<open>A source of random integers that always answers 0.\<close>

definition zero_randint :: "nat \<Rightarrow> int" where
  "zero_randint i = 0"

text \<open>
  A school on a Saturday (day 5). Classroom 1 has a contagious student of family 0, a
  healthy student of family 1 and a healthy teacher; classroom 2 has healthy students of
  families 0 and 2 and a contagious teacher. Neither classroom is offline.
\<close>

definition weekend_school :: school where
  "weekend_school =
     \<lparr>school_name = ''weekend'',
      classrooms =
        [\<lparr>number = 1,
          students =
            [(person_init ''student_1_0'' 5)
               \<lparr>days_with_virus := 4, day_infected := 1, family_unit := Some 0\<rparr>,
             (person_init ''student_1_1'' 5)\<lparr>family_unit := Some 1\<rparr>],
          teachers = [person_init ''teacher_1_0'' 30],
          earliest_positive_test_day = None\<rparr>,
         \<lparr>number = 2,
          students = [(person_init ''student_2_0'' 5)\<lparr>family_unit := Some 0\<rparr>,
                      (person_init ''student_2_1'' 5)\<lparr>family_unit := Some 2\<rparr>],
          teachers = [(person_init ''teacher_2_0'' 30)\<lparr>days_with_virus := 4, day_infected := 1\<rparr>],
          earliest_positive_test_day = None\<rparr>],
      class_size = 2\<rparr>"


text \<open>
  A school of one classroom with one student, and a school of one classroom with 101
  students, as the constructor builds them.
\<close>

definition one_student_school :: school where
  "one_student_school =
     \<lparr>school_name = ''one'', classrooms = [classroom_init 1 1 5 2], class_size = 1\<rparr>"

definition large_class_school :: school where
  "large_class_school =
     \<lparr>school_name = ''large'', classrooms = [classroom_init 1 101 5 2], class_size = 101\<rparr>"

text \<open>
  Rounding to the nearest multiple of \<open>1 / 2 ^ k\<close>. The doubles from \<open>2 ^ e\<close> up to
  \<open>2 ^ (e + 1)\<close> are the multiples of \<open>2 ^ (e - 52)\<close>, so the double nearest to a value
  in that range is its nearest multiple of \<open>2 ^ (e - 52)\<close>: \<open>k = 53\<close> serves the values
  between 1/2 and 1, \<open>k = 46\<close> those between 64 and 128. Every integer is a multiple.
  A value halfway between two multiples goes to the upper one here, where double
  arithmetic takes the even one; none of the values rounded below is halfway.
\<close>

definition round_to_grid :: "nat \<Rightarrow> rat \<Rightarrow> rat" where
  "round_to_grid k x = of_int (round (x * 2 ^ k)) / 2 ^ k"

text \<open>The double that the literal \<^verbatim>\<open>1.01\<close> denotes.\<close>

definition double_1_01 :: rat where
  "double_1_01 = 4548635623644201 / 4503599627370496"


section \<open>Theorems: the person predicates and the classifier\<close>

text \<open>
  C5. For every person and every timer value, \<open>is_contagious\<close> holds exactly when
  first_contagious_day \<le> days_with_virus < last_contagious_day (3 \<le> timer < 13), and
  \<open>tests_positive\<close> holds exactly when first_positive_test_day < days_with_virus \<le>
  last_positive_test_day (1 < timer \<le> 16).
\<close>

theorem predicate_windows:
  "is_contagious (p\<lparr>days_with_virus := t\<rparr>) =
     (first_contagious_day \<le> t \<and> t < last_contagious_day)
   \<and> tests_positive (p\<lparr>days_with_virus := t\<rparr>) =
     (first_positive_test_day < t \<and> t \<le> last_positive_test_day)
   \<and> is_contagious (p\<lparr>days_with_virus := t\<rparr>) = (3 \<le> t \<and> t < 13)
   \<and> tests_positive (p\<lparr>days_with_virus := t\<rparr>) = (1 < t \<and> t \<le> 16)"
  by (simp add: is_contagious_def tests_positive_def first_contagious_day_def
      last_contagious_day_def first_positive_test_day_def last_positive_test_day_def)

text \<open>
  C4. For every nullable test day T and every day_contagious, determine_agg_warnings
  increments exactly one of its three counters by exactly 1: the no-warning counter when
  T is None or T + test_lag \<ge> day_contagious + first_contagious_day; otherwise the
  some-warning counter when T + test_lag \<ge> day_contagious; otherwise the good-warning
  counter. The two other counters are returned as they were.
\<close>

theorem determine_agg_warnings_tiers:
  "determine_agg_warnings T day_contagious (n, s, g) =
     (if T = None \<or> the T + test_lag \<ge> day_contagious + first_contagious_day
      then (n + 1, s, g)
      else if the T + test_lag \<ge> day_contagious then (n, s + 1, g)
      else (n, s, g + 1))
   \<and> determine_agg_warnings T day_contagious (n, s, g) =
       bump (spec_tier T day_contagious) (n, s, g)
   \<and> (determine_agg_warnings T day_contagious (n, s, g) = (n + 1, s, g)) =
       (spec_tier T day_contagious = No_warning)
   \<and> (determine_agg_warnings T day_contagious (n, s, g) = (n, s + 1, g)) =
       (spec_tier T day_contagious = Some_warning)
   \<and> (determine_agg_warnings T day_contagious (n, s, g) = (n, s, g + 1)) =
       (spec_tier T day_contagious = Good_warning)"
  by (cases T) (simp_all add: spec_tier_def)

text \<open>
  C10. The inline classification of school 1's student of interest and
  determine_agg_warnings are the same function of (T, day_contagious, counters): given
  the same inputs, both increment the counter of the same tier.
\<close>

theorem S1_inline_equals_determine_agg_warnings:
  "S1_inline_warnings T day_contagious cs = determine_agg_warnings T day_contagious cs"
  by (cases T; cases cs) simp_all

section \<open>Theorems: testing a classroom\<close>

lemma test_loop_Some: "test_loop day ss (Some t) = Some t"
  by (induction ss) simp_all

lemma test_loop_eq:
  "test_loop day ss e =
     (if e = None \<and> list_ex tests_positive ss then Some day else e)"
proof (induction ss arbitrary: e)
  case Nil
  show ?case by simp
next
  case (Cons p ss)
  show ?case
  proof (cases e)
    case None
    then show ?thesis by (simp add: Cons.IH test_loop_Some)
  next
    case (Some t)
    then show ?thesis by (simp add: test_loop_Some)
  qed
qed

text \<open>
  C2, as stated, fails: \<open>classroom.test\<close> walks \<open>self.students\<close> only. In a classroom
  that was never tested positive, whose only positive-testing member is a teacher, the
  call on day 7 leaves earliest_positive_test_day at None.
\<close>

theorem test_skips_teachers:
  "list_ex tests_positive (teachers staff_positive_classroom)
   \<and> earliest_positive_test_day staff_positive_classroom = None
   \<and> earliest_positive_test_day (classroom_test staff_positive_classroom 7) = None"
  by (simp add: staff_positive_classroom_def classroom_test_def tests_positive_def
      person_init_def first_positive_test_day_def last_positive_test_day_def)

text \<open>
  C2, amended. For every classroom and every day, \<open>classroom.test\<close> examines every
  student (and no teacher): earliest_positive_test_day becomes the day when some student
  tests positive and the field is None, and keeps its value otherwise; the members are
  not changed.
\<close>

theorem test_examines_students:
  "earliest_positive_test_day (classroom_test c day) =
     (if earliest_positive_test_day c = None \<and> (\<exists>stdt \<in> set (students c). tests_positive stdt)
      then Some day else earliest_positive_test_day c)
   \<and> teachers (classroom_test c day) = teachers c
   \<and> students (classroom_test c day) = students c"
  by (simp add: classroom_test_def test_loop_eq list_ex_iff)

theorem test_examines_students_witness:
  "earliest_positive_test_day
     (classroom_test
        (example_classroom 3 None\<lparr>students := [(example_student 3)\<lparr>days_with_virus := 6\<rparr>]\<rparr>) 9)
   = Some 9"
  using test_examines_students
    [of "example_classroom 3 None\<lparr>students := [(example_student 3)\<lparr>days_with_virus := 6\<rparr>]\<rparr>" 9]
  by (simp add: example_classroom_def tests_positive_def first_positive_test_day_def
      last_positive_test_day_def)

text \<open>
  C9. Once earliest_positive_test_day of a classroom is Some t, a call of
  \<open>classroom.test\<close> on any day, whatever the members and their test outcomes are by
  then, leaves it at Some t; and so does any sequence of such calls, each after an
  arbitrary change of the members.
\<close>

theorem first_detection_wins:
  assumes "earliest_positive_test_day c = Some t"
  shows "earliest_positive_test_day
           (classroom_test (c\<lparr>students := ss, teachers := ts\<rparr>) day) = Some t
       \<and> earliest_positive_test_day
           (foldl (\<lambda>c' (ss', ts', day').
                     classroom_test (c'\<lparr>students := ss', teachers := ts'\<rparr>) day') c evs)
         = Some t"
proof
  show "earliest_positive_test_day
          (classroom_test (c\<lparr>students := ss, teachers := ts\<rparr>) day) = Some t"
    using assms by (simp add: classroom_test_def test_loop_Some)
  show "earliest_positive_test_day
          (foldl (\<lambda>c' (ss', ts', day').
                    classroom_test (c'\<lparr>students := ss', teachers := ts'\<rparr>) day') c evs)
        = Some t"
    using assms
  proof (induction evs arbitrary: c)
    case Nil
    then show ?case by simp
  next
    case (Cons ev evs)
    obtain ss1 ts1 d1 where ev: "ev = (ss1, ts1, d1)"
      by (cases ev) auto
    have "earliest_positive_test_day
            (classroom_test (c\<lparr>students := ss1, teachers := ts1\<rparr>) d1) = Some t"
      using Cons.prems by (simp add: classroom_test_def test_loop_Some)
    from Cons.IH [OF this] show ?case
      by (simp add: ev)
  qed
qed

theorem first_detection_wins_witness:
  "earliest_positive_test_day
     (classroom_test
        (example_classroom 3 (Some 4)
           \<lparr>students := [(example_student 3)\<lparr>days_with_virus := 6\<rparr>], teachers := []\<rparr>) 9)
   = Some 4"
  using first_detection_wins
    [where c = "example_classroom 3 (Some 4)" and t = 4
       and ss = "[(example_student 3)\<lparr>days_with_virus := 6\<rparr>]" and ts = "[]" and day = 9
       and evs = "[]"]
  by (simp add: example_classroom_def)

section \<open>Theorems: the results of a trial\<close>

lemma determine_agg_warnings_bump:
  "determine_agg_warnings T dc cs = bump (spec_tier T dc) cs"
  by (cases T; cases cs) (simp_all add: spec_tier_def)

text \<open>
  C3. At the end of a trial, with k1 and k2 the students of interest of school 1 and
  school 2 and c1 the first classroom of school 1: when both were infected by N_days,
  the aggregate counters are incremented in the tier of
  min (day_infected k1 + first_contagious_day) (day_infected k2 + first_contagious_day)
  against c1's earliest_positive_test_day; when only one was, in the tier of that
  student's own day_infected + first_contagious_day, still against c1's
  earliest_positive_test_day; when neither was, they are left alone. The test day of
  school 2's classroom is not read.
\<close>

theorem aggregate_classification:
  assumes "of_interest S1 = Inr (k1, c1)" and "of_interest S2 = Inr (k2, c2)"
  shows "\<exists>t'. final_results S1 S2 t = Inr t' \<and>
     Agg_infections_warnings t' =
       (if day_infected k1 \<le> N_days \<and> day_infected k2 \<le> N_days
        then bump (spec_tier (earliest_positive_test_day c1)
                    (min (day_infected k1 + first_contagious_day)
                         (day_infected k2 + first_contagious_day)))
               (Agg_infections_warnings t)
        else if day_infected k1 \<le> N_days
        then bump (spec_tier (earliest_positive_test_day c1)
                    (day_infected k1 + first_contagious_day))
               (Agg_infections_warnings t)
        else if day_infected k2 \<le> N_days
        then bump (spec_tier (earliest_positive_test_day c1)
                    (day_infected k2 + first_contagious_day))
               (Agg_infections_warnings t)
        else Agg_infections_warnings t)"
  using assms
  by (simp add: final_results_def tally_trial_def Let_def determine_agg_warnings_bump)

theorem aggregate_classification_witness:
  "\<exists>t'. final_results (example_school 20 (Some 12)) (example_school 10 (Some 3)) zero_tallies
          = Inr t'
     \<and> Agg_infections_warnings t' = (0, 1, 0)"
proof -
  have i: "of_interest (example_school d T) = Inr (example_student d, example_classroom d T)"
    for d T
    by (simp add: of_interest_def example_school_def example_classroom_def)
  have d: "day_infected (example_student d) = d" for d
    by (simp add: example_student_def sicken_def person_init_def)
  show ?thesis
    using aggregate_classification [OF i i, of 20 "Some 12" 10 "Some 3" zero_tallies]
    by (simp add: d example_classroom_def zero_tallies_def N_days_def
        first_contagious_day_def spec_tier_def test_lag_def)
qed

section \<open>Theorems: family assignment\<close>

text \<open>
  C8. If students_per_family < 1, \<open>assign_to_random_families\<close> prints the
  configuration error and returns the school as it was: no family_unit, and nothing
  else, is changed.
\<close>

theorem config_error_leaves_state:
  assumes "spf < 1"
  shows "assign_to_random_families fl spf randint shuffle s =
     Inr ([''Can't have fewer than 1 student per family.''], s)"
  using assms by (simp add: assign_to_random_families_def)

theorem config_error_leaves_state_witness:
  "assign_to_random_families (round_to_grid 53) (1 / 2) zero_randint rev
       (example_school 20 None) =
     Inr ([''Can't have fewer than 1 student per family.''], example_school 20 None)"
  using config_error_leaves_state
    [of "1 / 2" "round_to_grid 53" zero_randint rev "example_school 20 None"]
  by simp

section \<open>Theorems: seeding\<close>

text \<open>
  C1, at the input where the code departs from it. School 1 as a trial builds it, seeding
  index 0, day 0, and the exclude list of the seeding block: the student of interest is
  named student_1_0, is healthy, and that name does not occur in the exclude list
  student_1_1; \<open>sicken_xth_person\<close> returns True, and afterwards that student's
  days_with_virus is 0 and day_infected is 0.
\<close>

theorem seeding_sickens_student_of_interest:
  "(case S1_school of
      Inl e \<Rightarrow> False
    | Inr s \<Rightarrow>
        (case of_interest s of
           Inl e \<Rightarrow> False
         | Inr (k, c) \<Rightarrow>
             name k = ''student_1_0'' \<and> days_with_virus k = - 1 \<and> day_infected k = 1000000
             \<and> str_in (name k) seeding_exclude_list = False)
        \<and> (case sicken_xth_person s 0 seeding_exclude_list 0 of
             (r, s') \<Rightarrow>
               r = Some True
               \<and> (case of_interest s' of
                    Inl e \<Rightarrow> False
                  | Inr (k', c') \<Rightarrow> days_with_virus k' = 0 \<and> day_infected k' = 0)))"
  by code_simp

section \<open>Theorems: daily transmission\<close>

lemma in_contagious_families:
  "(f \<in> set (contagious_families s)) =
     (\<exists>c \<in> set (classrooms s). \<exists>q \<in> set (students c). is_contagious q \<and> family_unit q = f)"
  by (auto simp: contagious_families_def)

lemma spread_in_classrooms_weekend:
  "day mod 7 \<in> {5, 6} \<Longrightarrow> spread_in_classrooms s day = s"
  by (simp add: spread_in_classrooms_def)

text \<open>
  C6. On a day with day mod 7 in {5, 6}, \<open>spread_virus\<close> runs no classroom channel:
  every teacher is left as they were, whatever the state of the classroom, and a
  student is changed only through the family channel. The family channel runs: every
  student whose family_unit is that of some contagious student of the school has
  \<open>sicken\<close> applied (which infects a student who never had the virus, on that day), and
  every other student is left as they were.
\<close>

theorem weekend_spread:
  assumes "day mod 7 \<in> {5, 6}"
  shows "map teachers (classrooms (spread_virus s day)) = map teachers (classrooms s)
     \<and> map students (classrooms (spread_virus s day)) =
         map (\<lambda>clrm. map (\<lambda>stdt.
                 if (\<exists>c \<in> set (classrooms s). \<exists>q \<in> set (students c).
                       is_contagious q \<and> family_unit q = family_unit stdt)
                 then sicken stdt day else stdt) (students clrm))
           (classrooms s)
     \<and> map earliest_positive_test_day (classrooms (spread_virus s day)) =
         map earliest_positive_test_day (classrooms s)
     \<and> (\<forall>p. days_with_virus p = - 1 \<longrightarrow>
            is_sick (sicken p day) \<and> days_with_virus (sicken p day) = 0
            \<and> day_infected (sicken p day) = day)"
  using assms
  by (simp add: spread_virus_def spread_in_classrooms_weekend spread_in_families_def
        in_contagious_families comp_def is_sick_def sicken_def)

theorem weekend_spread_witness:
  "map (map days_with_virus) (map teachers (classrooms (spread_virus weekend_school 5))) = [[- 1], [4]]
   \<and> map (map days_with_virus) (map students (classrooms (spread_virus weekend_school 5))) = [[4, - 1], [0, - 1]]"
  using weekend_spread [of 5 weekend_school]
  by (simp add: weekend_school_def person_init_def is_contagious_def sicken_def
      first_contagious_day_def last_contagious_day_def)

section \<open>Theorems: the family invariant\<close>

lemma assign_to_families_loop_ok:
  "length ss \<le> length fa \<Longrightarrow>
   \<exists>ss'. assign_to_families_loop ss fa = Inr ss'
      \<and> map family_unit ss' = map Some (take (length ss) fa)"
proof (induction ss fa rule: assign_to_families_loop.induct)
  case (1 fa)
  show ?case by simp
next
  case (2 stdt rest)
  then show ?case by simp
next
  case (3 stdt rest fam fa)
  then obtain rest' where "assign_to_families_loop rest fa = Inr rest'"
    and "map family_unit rest' = map Some (take (length rest) fa)"
    by auto
  then show ?case by (simp add: assign_to_family_def)
qed

lemma distribute_ok:
  assumes "\<forall>c \<in> set cs. length (students c) = k"
    and "k * length cs \<le> length fa"
  shows "\<exists>cs'. distribute (int k) cs fa = Inr cs'
      \<and> concat (map (\<lambda>c. map family_unit (students c)) cs') = map Some (take (k * length cs) fa)"
  using assms
proof (induction cs arbitrary: fa)
  case Nil
  show ?case by simp
next
  case (Cons c cs)
  have len: "length (students c) = k" using Cons.prems(1) by simp
  have kfa: "k \<le> length fa" using Cons.prems(2) by simp
  have "length (students c) \<le> length (slice_to fa (int k))"
    using len kfa by (simp add: slice_to_def)
  from assign_to_families_loop_ok [OF this]
  obtain ss' where ss': "assign_to_families_loop (students c) (slice_to fa (int k)) = Inr ss'"
    and fam_ss': "map family_unit ss' = map Some (take k fa)"
    using len by (auto simp: slice_to_def)
  have rest_sizes: "\<forall>c \<in> set cs. length (students c) = k"
    using Cons.prems(1) by simp
  have rest_len: "k * length cs \<le> length (del_to fa (int k))"
    using Cons.prems(2) by (simp add: del_to_def)
  from Cons.IH [OF rest_sizes rest_len]
  obtain cs' where cs': "distribute (int k) cs (del_to fa (int k)) = Inr cs'"
    and fam_cs': "concat (map (\<lambda>c. map family_unit (students c)) cs')
        = map Some (take (k * length cs) (drop k fa))"
    by (auto simp: del_to_def)
  have "take k fa @ take (k * length cs) (drop k fa) = take (k * length (c # cs)) fa"
    by (simp add: take_add)
  then show ?case
    using ss' fam_ss' cs' fam_cs'
    by (simp add: assign_to_families_def flip: map_append)
qed

lemma total_students_uniform:
  "\<forall>c \<in> set cs. length (students c) = k \<Longrightarrow>
   (\<Sum>clrm \<leftarrow> cs. int (length (students clrm))) = int (k * length cs)"
  by (induction cs) (simp_all add: algebra_simps)

lemma round_to_grid_mono: "x \<le> y \<Longrightarrow> round_to_grid k x \<le> round_to_grid k y"
  unfolding round_to_grid_def
  by (intro divide_right_mono iffD2 [OF of_int_le_iff] round_mono mult_right_mono) simp_all

lemma round_to_grid_of_int: "round_to_grid k (of_int n) = of_int n"
proof -
  have "(of_int n :: rat) * 2 ^ k = of_int (n * 2 ^ k)" by simp
  then have "round ((of_int n :: rat) * 2 ^ k) = n * 2 ^ k"
    by (simp only: round_of_int)
  then show ?thesis by (simp add: round_to_grid_def)
qed

lemma floor_truediv_bounds:
  assumes spf: "1 \<le> spf" and t: "0 \<le> t"
    and mono: "\<forall>x y. x \<le> y \<longrightarrow> fl x \<le> fl y"
    and zero: "fl 0 = 0" and exact: "fl (of_int t) = of_int t"
  shows "\<lfloor>py_truediv fl t spf\<rfloor> \<le> t" and "0 \<le> \<lfloor>py_truediv fl t spf\<rfloor>"
proof -
  have q: "py_truediv fl t spf = fl (of_int t / spf)"
    by (simp add: py_truediv_def exact)
  have upper: "of_int t / spf \<le> (of_int t :: rat)"
    using spf t by (simp add: divide_le_eq mult_le_cancel_left1)
  have lower: "0 \<le> of_int t / spf"
    using spf t by simp
  have "fl (of_int t / spf) \<le> fl (of_int t)"
    using mono upper by blast
  then have "py_truediv fl t spf \<le> of_int t"
    by (simp add: q exact)
  then have "\<lfloor>py_truediv fl t spf\<rfloor> \<le> \<lfloor>of_int t :: rat\<rfloor>"
    by (rule floor_mono)
  then show "\<lfloor>py_truediv fl t spf\<rfloor> \<le> t" by simp
  have "fl 0 \<le> fl (of_int t / spf)"
    using mono lower by blast
  then have "0 \<le> py_truediv fl t spf"
    by (simp add: q zero)
  then show "0 \<le> \<lfloor>py_truediv fl t spf\<rfloor>" by simp
qed

text \<open>
  With one student and students_per_family = 1.25, the quotient is the double nearest to
  0.8, its floor num_families is 0, and the first call of \<open>random.randint(0, -1)\<close>
  raises, whatever the random source is.
\<close>

lemma one_student_num_families:
  "\<lfloor>py_truediv (round_to_grid 53) (total_students one_student_school) students_per_family\<rfloor>
     = 0"
proof -
  have "total_students one_student_school = 1"
    by (simp add: total_students_def one_student_school_def classroom_init_def)
  moreover have "round_to_grid 53 1 = 1"
    using round_to_grid_of_int [of 53 1] by simp
  moreover have "round_to_grid 53 (4 / 5) = 3602879701896397 / 4503599627370496"
    by (simp add: round_to_grid_def round_def floor_unique)
  ultimately show ?thesis
    by (simp add: py_truediv_def students_per_family_def floor_unique)
qed

lemma too_few_students_error:
  "assign_to_random_families (round_to_grid 53) students_per_family randint shuffle
     one_student_school = Inl ValueError"
proof -
  have "total_students one_student_school = 1"
    by (simp add: total_students_def one_student_school_def classroom_init_def)
  then show ?thesis
    using one_student_num_families
    by (simp add: assign_to_random_families_def students_per_family_def Let_def)
qed

text \<open>
  C7, as stated, fails: the school of one classroom with one student has class_size
  students in every classroom and students_per_family = 1.25 \<ge> 1, but
  \<open>assign_to_random_families\<close> raises ValueError and assigns no family unit.
\<close>

theorem family_assignment_raises:
  "1 \<le> students_per_family
   \<and> map (\<lambda>c. int (length (students c))) (classrooms one_student_school)
       = [class_size one_student_school]
   \<and> assign_to_random_families (round_to_grid 53) students_per_family zero_randint rev
       one_student_school = Inl ValueError"
proof -
  have total: "total_students one_student_school = 1"
    by (simp add: total_students_def one_student_school_def classroom_init_def)
  have "assign_to_random_families (round_to_grid 53) students_per_family zero_randint rev
       one_student_school = Inl ValueError"
    using one_student_num_families total
    by (simp add: assign_to_random_families_def students_per_family_def Let_def)
  then show ?thesis
    by (simp add: students_per_family_def one_student_school_def classroom_init_def)
qed

text \<open>
  C7, amended. In a school whose classrooms all have class_size students, with
  students_per_family \<ge> 1 and with num_families = floor (total_students /
  students_per_family), the quotient being the one double arithmetic returns, at least 1
  (or with no student at all): if the rounding of double arithmetic is monotone and
  leaves 0 and total_students as they are, every call of
  \<open>random.randint(0, num_families - 1)\<close> answers within its bounds and \<open>random.shuffle\<close>
  permutes its list, then \<open>assign_to_random_families\<close> returns, every student has a
  family unit that is not None and lies in [0, num_families), the family units of the
  students are exactly the numbers of that range, and so their number is num_families.
\<close>

theorem family_invariant:
  assumes spf: "1 \<le> spf"
    and sizes: "\<forall>c \<in> set (classrooms s). int (length (students c)) = class_size s"
    and fl_mono: "\<forall>x y. x \<le> y \<longrightarrow> fl x \<le> fl y"
    and fl_zero: "fl 0 = 0"
    and fl_total: "fl (of_int (total_students s)) = of_int (total_students s)"
    and nf: "num_families = \<lfloor>py_truediv fl (total_students s) spf\<rfloor>"
    and some: "1 \<le> num_families \<or> total_students s = 0"
    and rand: "\<forall>i < nat (total_students s - num_families).
                 0 \<le> randint i \<and> randint i \<le> num_families - 1"
    and shuf: "\<forall>xs. mset (shuffle xs) = mset xs"
  shows "\<exists>s'. assign_to_random_families fl spf randint shuffle s = Inr ([], s')
     \<and> (\<forall>c \<in> set (classrooms s'). \<forall>p \<in> set (students c).
           \<exists>f. family_unit p = Some f \<and> 0 \<le> f \<and> f < num_families)
     \<and> (\<Union>c \<in> set (classrooms s'). family_unit ` set (students c))
           = Some ` {0 ..< num_families}
     \<and> int (card (\<Union>c \<in> set (classrooms s'). family_unit ` set (students c)))
           = num_families"
proof -
  define k where "k = (if classrooms s = [] then 0 else nat (class_size s))"
  define total where "total = total_students s"
  define extra where "extra = nat (total - num_families)"
  define fa where "fa = shuffle (map int [0..<nat num_families] @ map randint [0..<extra])"
  have uniform: "\<forall>c \<in> set (classrooms s). length (students c) = k"
    using sizes by (auto simp: k_def)
  have total_eq: "total = int (k * length (classrooms s))"
    unfolding total_def total_students_def by (rule total_students_uniform [OF uniform])
  have total_nonneg: "0 \<le> total" using total_eq by simp
  have nf_le: "num_families \<le> total" and nf_nonneg: "0 \<le> num_families"
    using floor_truediv_bounds [OF spf total_nonneg fl_mono fl_zero] fl_total nf
    by (simp_all add: total_def)
  have no_error: "\<not> (extra > 0 \<and> num_families - 1 < 0)"
    using some nf_le nf_nonneg by (auto simp: extra_def total_def)
  have len_fa: "length fa = k * length (classrooms s)"
  proof -
    have "length fa = length (map int [0..<nat num_families] @ map randint [0..<extra])"
      unfolding fa_def using shuf by (metis size_mset)
    also have "\<dots> = nat num_families + extra" by simp
    also have "\<dots> = nat total" using nf_le nf_nonneg by (simp add: extra_def)
    also have "\<dots> = k * length (classrooms s)" unfolding total_eq by (rule nat_int)
    finally show ?thesis .
  qed
  have set_fa: "set fa = {0 ..< num_families}"
  proof -
    have "set fa = set (map int [0..<nat num_families] @ map randint [0..<extra])"
      unfolding fa_def using shuf by (metis set_mset_mset)
    also have "\<dots> = int ` {0..<nat num_families} \<union> randint ` {0..<extra}" by simp
    also have "\<dots> = {0 ..< num_families}"
    proof -
      have a: "int ` {0..<nat num_families} = {0 ..< num_families}"
        using nf_nonneg by (simp add: image_int_atLeastLessThan)
      have b: "randint ` {0..<extra} \<subseteq> {0 ..< num_families}"
        using rand by (auto simp: extra_def total_def)
      show ?thesis using a b by auto
    qed
    finally show ?thesis .
  qed
  have cls: "class_size s = int k" if "classrooms s \<noteq> []"
    using that sizes by (cases "classrooms s") (auto simp: k_def)
  have "\<exists>cs'. distribute (class_size s) (classrooms s) fa = Inr cs'
      \<and> concat (map (\<lambda>c. map family_unit (students c)) cs') = map Some fa"
  proof (cases "classrooms s = []")
    case True
    then show ?thesis using len_fa by simp
  next
    case False
    have "k * length (classrooms s) \<le> length fa" using len_fa by simp
    from distribute_ok [OF uniform this] show ?thesis
      using len_fa cls [OF False] by simp
  qed
  then obtain cs' where dist: "distribute (class_size s) (classrooms s) fa = Inr cs'"
    and fams: "concat (map (\<lambda>c. map family_unit (students c)) cs') = map Some fa"
    by blast
  have union: "(\<Union>c \<in> set cs'. family_unit ` set (students c)) = Some ` {0 ..< num_families}"
  proof -
    have "(\<Union>c \<in> set cs'. family_unit ` set (students c))
        = set (concat (map (\<lambda>c. map family_unit (students c)) cs'))"
      by auto
    also have "\<dots> = Some ` set fa" by (simp add: fams)
    finally show ?thesis by (simp add: set_fa)
  qed
  have run: "assign_to_random_families fl spf randint shuffle s
      = Inr ([], s\<lparr>classrooms := cs'\<rparr>)"
  proof -
    have nf': "\<lfloor>py_truediv fl (total_students s) spf\<rfloor> = num_families"
      using nf by simp
    have "assign_to_random_families fl spf randint shuffle s =
        (if extra > 0 \<and> num_families - 1 < 0 then Inl ValueError
         else (case distribute (class_size s) (classrooms s) fa of
                 Inl e \<Rightarrow> Inl e
               | Inr cs \<Rightarrow> Inr ([], s\<lparr>classrooms := cs\<rparr>)))"
      using spf
      unfolding assign_to_random_families_def Let_def nf' extra_def total_def fa_def
      by simp
    then show ?thesis
      using no_error dist by simp
  qed
  have each: "\<forall>c \<in> set cs'. \<forall>p \<in> set (students c).
      \<exists>f. family_unit p = Some f \<and> 0 \<le> f \<and> f < num_families"
  proof (intro ballI)
    fix c p
    assume "c \<in> set cs'" and "p \<in> set (students c)"
    then have "family_unit p \<in> (\<Union>c \<in> set cs'. family_unit ` set (students c))"
      by blast
    then show "\<exists>f. family_unit p = Some f \<and> 0 \<le> f \<and> f < num_families"
      unfolding union by auto
  qed
  have "card (Some ` {0 ..< num_families}) = card {0 ..< num_families}"
    by (rule card_image) simp
  then have card: "int (card (\<Union>c \<in> set cs'. family_unit ` set (students c))) = num_families"
    using nf_nonneg by (simp add: union)
  show ?thesis
    using run each union card by simp
qed

text \<open>
  The theorem at 101 students in one classroom and students_per_family = 1.01: the exact
  quotient is just below 100, the double quotient is 100.0, and the students get the 100
  family units 0 to 99.
\<close>

theorem family_invariant_witness:
  "\<exists>s'. assign_to_random_families (round_to_grid 46) double_1_01 zero_randint rev
          large_class_school = Inr ([], s')
     \<and> (\<forall>c \<in> set (classrooms s'). \<forall>p \<in> set (students c).
           \<exists>f. family_unit p = Some f \<and> 0 \<le> f \<and> f < 100)
     \<and> (\<Union>c \<in> set (classrooms s'). family_unit ` set (students c)) = Some ` {0 ..< 100}
     \<and> int (card (\<Union>c \<in> set (classrooms s'). family_unit ` set (students c))) = 100"
proof -
  have total: "total_students large_class_school = 101"
    by (simp add: total_students_def large_class_school_def classroom_init_def)
  have spf: "1 \<le> double_1_01"
    by (simp add: double_1_01_def)
  have sizes: "\<forall>c \<in> set (classrooms large_class_school).
      int (length (students c)) = class_size large_class_school"
    by (simp add: large_class_school_def classroom_init_def)
  have fl_mono: "\<forall>x y. x \<le> y \<longrightarrow> round_to_grid 46 x \<le> round_to_grid 46 y"
    by (simp add: round_to_grid_mono)
  have fl_zero: "round_to_grid 46 0 = 0"
    using round_to_grid_of_int [of 46 0] by simp
  have fl_total: "round_to_grid 46 (of_int (total_students large_class_school))
      = of_int (total_students large_class_school)"
    by (rule round_to_grid_of_int)
  have "round_to_grid 46 (101 / double_1_01) = 100"
    by (simp add: round_to_grid_def double_1_01_def round_def floor_unique)
  then have nf: "(100::int)
      = \<lfloor>py_truediv (round_to_grid 46) (total_students large_class_school) double_1_01\<rfloor>"
    using round_to_grid_of_int [of 46 101] by (simp add: py_truediv_def total)
  have some: "(1::int) \<le> 100 \<or> total_students large_class_school = 0"
    by simp
  have rand: "\<forall>i < nat (total_students large_class_school - 100).
      0 \<le> zero_randint i \<and> zero_randint i \<le> 100 - 1"
    by (simp add: zero_randint_def)
  have shuf: "\<forall>xs :: int list. mset (rev xs) = mset xs"
    by simp
  from family_invariant [OF spf sizes fl_mono fl_zero fl_total nf some rand shuf]
  show ?thesis .
qed

end
